theory Spec2Isabelle
  imports Complex_Main
begin

section \<open>Payment triage: the decision logic of decision\_flow.js\<close>

subsection \<open>JavaScript numbers and their comparisons\<close>

text \<open>
  The fields \<open>amount\<close>, \<open>time_elapsed_hours\<close> and \<open>system_certainty_score\<close> are
  JavaScript numbers. Only their order is ever read, so a number is modelled by the real
  it denotes, or by one of the three special values. Every double is one of these, and
  the order of finite doubles is the order of the reals they denote.
\<close>

datatype number = Finite real | NaN | Infinity | NegInfinity

text \<open>The operator \<open><\<close>: any comparison with \<open>NaN\<close> is false.\<close>

fun js_lt :: "number \<Rightarrow> number \<Rightarrow> bool" where
  "js_lt NaN _ = False"
| "js_lt _ NaN = False"
| "js_lt (Finite x) (Finite y) = (x < y)"
| "js_lt (Finite _) Infinity = True"
| "js_lt (Finite _) NegInfinity = False"
| "js_lt Infinity _ = False"
| "js_lt NegInfinity NegInfinity = False"
| "js_lt NegInfinity _ = True"

text \<open>The operator \<open>></\<close> is \<open><\<close> with the operands exchanged.\<close>

definition js_gt :: "number \<Rightarrow> number \<Rightarrow> bool" where
  "js_gt a b = js_lt b a"

text \<open>
  The operators \<open><=\<close> and \<open>>=\<close> do not occur in the program; they are the reading of
  "less than or equal to" and "greater than or equal to" on JavaScript numbers, false
  as soon as an operand is \<open>NaN\<close>.
\<close>

definition js_le :: "number \<Rightarrow> number \<Rightarrow> bool" where
  "js_le a b = (a \<noteq> NaN \<and> b \<noteq> NaN \<and> \<not> js_lt b a)"

definition js_ge :: "number \<Rightarrow> number \<Rightarrow> bool" where
  "js_ge a b = (a \<noteq> NaN \<and> b \<noteq> NaN \<and> \<not> js_lt a b)"

subsection \<open>Data\<close>

text \<open>
  The record follows the "Data Shape" comment of the source. The status and the gateway
  response are strings (the program compares the status with \<open>===\<close> against string
  literals, and any string may arrive). The scenarios of the source carry no currency,
  hence the option.
\<close>

record case_record =
  status :: string
  gateway_response :: string
  amount :: number
  currency :: "string option"
  debited_from_customer :: bool
  time_elapsed_hours :: number
  system_certainty_score :: number

record rules =
  HIGH_VALUE_THRESHOLD :: number
  AUTO_REVERSAL_WINDOW_HOURS :: number
  CERTAINTY_THRESHOLD :: number

definition RULES :: rules where
  "RULES = \<lparr>HIGH_VALUE_THRESHOLD = Finite 5000,
            AUTO_REVERSAL_WINDOW_HOURS = Finite 24,
            CERTAINTY_THRESHOLD = Finite 1\<rparr>"

text \<open>
  A reason is a string or a template literal. A template keeps the interpolated number
  as it is: \<open>Interp n\<close> stands for the text JavaScript prints for \<open>n\<close>.
\<close>

datatype piece = Lit string | Interp number

record Decision =
  decision :: string
  reason :: "piece list"

subsection \<open>The decision function\<close>

definition analyzeCase :: "case_record \<Rightarrow> Decision" where
  "analyzeCase data =
    (if debited_from_customer data \<and> status data = ''FAILED'' then
       \<lparr>decision = ''ESCALATE'',
        reason = [Lit ''CRITICAL: Customer debited but transaction marked FAILED. Reconciliation required.'']\<rparr>
     else if js_gt (amount data) (HIGH_VALUE_THRESHOLD RULES) then
       \<lparr>decision = ''ESCALATE'',
        reason = [Lit ''RISK: Transaction amount ('', Interp (amount data),
                  Lit '') exceeds safety threshold. Human review mandatory.'']\<rparr>
     else if js_lt (system_certainty_score data) (CERTAINTY_THRESHOLD RULES) then
       \<lparr>decision = ''ESCALATE'',
        reason = [Lit ''UNCERTIANTY: System cannot definitively verify funds location.'']\<rparr>
     else if status data = ''PENDING'' then
       (if js_lt (time_elapsed_hours data) (AUTO_REVERSAL_WINDOW_HOURS RULES) then
          \<lparr>decision = ''WAIT'',
           reason = [Lit ''STANDARD PROCESS: Transaction is pending. Auto-reversal window ('',
                     Interp (AUTO_REVERSAL_WINDOW_HOURS RULES),
                     Lit ''h) active. Advise customer to wait.'']\<rparr>
        else
          \<lparr>decision = ''ESCALATE'',
           reason = [Lit ''SLA BREACH: Pending state exceeded auto-reversal window.'']\<rparr>)
     else
       \<lparr>decision = ''ESCALATE'',
        reason = [Lit ''DEFAULT: Case did not match safe automation attributes.'']\<rparr>)"

text \<open>
  The two tails of the chain, for statements about falling through: the rules from the
  certainty check on (lines 46 to 72), and the rules from the pending check on
  (lines 54 to 72).
\<close>

definition rules_from_certainty :: "case_record \<Rightarrow> Decision" where
  "rules_from_certainty data =
    (if js_lt (system_certainty_score data) (CERTAINTY_THRESHOLD RULES) then
       \<lparr>decision = ''ESCALATE'',
        reason = [Lit ''UNCERTIANTY: System cannot definitively verify funds location.'']\<rparr>
     else if status data = ''PENDING'' then
       (if js_lt (time_elapsed_hours data) (AUTO_REVERSAL_WINDOW_HOURS RULES) then
          \<lparr>decision = ''WAIT'',
           reason = [Lit ''STANDARD PROCESS: Transaction is pending. Auto-reversal window ('',
                     Interp (AUTO_REVERSAL_WINDOW_HOURS RULES),
                     Lit ''h) active. Advise customer to wait.'']\<rparr>
        else
          \<lparr>decision = ''ESCALATE'',
           reason = [Lit ''SLA BREACH: Pending state exceeded auto-reversal window.'']\<rparr>)
     else
       \<lparr>decision = ''ESCALATE'',
        reason = [Lit ''DEFAULT: Case did not match safe automation attributes.'']\<rparr>)"

definition rules_from_pending :: "case_record \<Rightarrow> Decision" where
  "rules_from_pending data =
    (if status data = ''PENDING'' then
       (if js_lt (time_elapsed_hours data) (AUTO_REVERSAL_WINDOW_HOURS RULES) then
          \<lparr>decision = ''WAIT'',
           reason = [Lit ''STANDARD PROCESS: Transaction is pending. Auto-reversal window ('',
                     Interp (AUTO_REVERSAL_WINDOW_HOURS RULES),
                     Lit ''h) active. Advise customer to wait.'']\<rparr>
        else
          \<lparr>decision = ''ESCALATE'',
           reason = [Lit ''SLA BREACH: Pending state exceeded auto-reversal window.'']\<rparr>)
     else
       \<lparr>decision = ''ESCALATE'',
        reason = [Lit ''DEFAULT: Case did not match safe automation attributes.'']\<rparr>)"

text \<open>The six results of the function, named after the branch that returns them.\<close>

definition escalate_limbo :: Decision where
  "escalate_limbo =
    \<lparr>decision = ''ESCALATE'',
     reason = [Lit ''CRITICAL: Customer debited but transaction marked FAILED. Reconciliation required.'']\<rparr>"

definition escalate_high_value :: "number \<Rightarrow> Decision" where
  "escalate_high_value a =
    \<lparr>decision = ''ESCALATE'',
     reason = [Lit ''RISK: Transaction amount ('', Interp a,
               Lit '') exceeds safety threshold. Human review mandatory.'']\<rparr>"

definition escalate_uncertain :: Decision where
  "escalate_uncertain =
    \<lparr>decision = ''ESCALATE'',
     reason = [Lit ''UNCERTIANTY: System cannot definitively verify funds location.'']\<rparr>"

definition wait_pending :: Decision where
  "wait_pending =
    \<lparr>decision = ''WAIT'',
     reason = [Lit ''STANDARD PROCESS: Transaction is pending. Auto-reversal window ('',
               Interp (Finite 24), Lit ''h) active. Advise customer to wait.'']\<rparr>"

definition escalate_sla_breach :: Decision where
  "escalate_sla_breach =
    \<lparr>decision = ''ESCALATE'',
     reason = [Lit ''SLA BREACH: Pending state exceeded auto-reversal window.'']\<rparr>"

definition escalate_default :: Decision where
  "escalate_default =
    \<lparr>decision = ''ESCALATE'',
     reason = [Lit ''DEFAULT: Case did not match safe automation attributes.'']\<rparr>"

subsection \<open>The call, with its effects\<close>

text \<open>
  The function receives a JavaScript value: \<open>undefined\<close>, \<open>null\<close>, or a reference to an
  object of the heap. Its first statement writes one line to the console, the label and
  \<open>JSON.stringify\<close> of the argument (kept as the value that was printed); reading a
  property of \<open>undefined\<close> or \<open>null\<close> then throws a \<open>TypeError\<close>.
\<close>

type_synonym addr = nat

datatype jsval = Undefined | Null | Ref addr

datatype error = TypeError

datatype printed = Str string | JSON_undefined | JSON_null | JSON_object case_record

record world =
  heap :: "addr \<Rightarrow> case_record"
  console :: "printed list list"

definition JSON_stringify :: "world \<Rightarrow> jsval \<Rightarrow> printed" where
  "JSON_stringify w v =
    (case v of Undefined \<Rightarrow> JSON_undefined | Null \<Rightarrow> JSON_null | Ref a \<Rightarrow> JSON_object (heap w a))"

definition console_log :: "printed list \<Rightarrow> world \<Rightarrow> world" where
  "console_log line w = w\<lparr>console := console w @ [line]\<rparr>"

definition analyzeCase_call :: "jsval \<Rightarrow> world \<Rightarrow> (error + Decision) \<times> world" where
  "analyzeCase_call v w =
    (let w' = console_log [Str ''Analyzing Case:'', JSON_stringify w v] w
     in case v of
          Ref a \<Rightarrow> (Inr (analyzeCase (heap w' a)), w')
        | _ \<Rightarrow> (Inl TypeError, w'))"

subsection \<open>The scenarios of the source\<close>

definition scenario_standard_pending :: case_record where
  "scenario_standard_pending =
    \<lparr>status = ''PENDING'', gateway_response = ''TIMEOUT'', amount = Finite 150,
     currency = None, debited_from_customer = True, time_elapsed_hours = Finite 2,
     system_certainty_score = Finite 1\<rparr>"

definition scenario_money_limbo :: case_record where
  "scenario_money_limbo =
    \<lparr>status = ''FAILED'', gateway_response = ''FAILURE'', amount = Finite 4500,
     currency = None, debited_from_customer = True, time_elapsed_hours = Finite 0.5,
     system_certainty_score = Finite 1\<rparr>"

definition scenario_high_value :: case_record where
  "scenario_high_value =
    \<lparr>status = ''PENDING'', gateway_response = ''TIMEOUT'', amount = Finite 12000,
     currency = None, debited_from_customer = True, time_elapsed_hours = Finite 1,
     system_certainty_score = Finite 1\<rparr>"

subsection \<open>The path to WAIT\<close>

text \<open>
  The conditions under which control reaches the only \<open>WAIT\<close> of the function: the
  first three tests fail and the two tests of the pending branch succeed.
\<close>

definition wait_path :: "case_record \<Rightarrow> bool" where
  "wait_path data =
    (\<not> (debited_from_customer data \<and> status data = ''FAILED'') \<and>
     \<not> js_gt (amount data) (HIGH_VALUE_THRESHOLD RULES) \<and>
     \<not> js_lt (system_certainty_score data) (CERTAINTY_THRESHOLD RULES) \<and>
     status data = ''PENDING'' \<and>
     js_lt (time_elapsed_hours data) (AUTO_REVERSAL_WINDOW_HOURS RULES))"

text \<open>
  The same path in the words of the specification: the amount is less than or equal to
  the high-value threshold and the score is greater than or equal to the certainty
  threshold.
\<close>

definition wait_path_as_stated :: "case_record \<Rightarrow> bool" where
  "wait_path_as_stated data =
    (\<not> (debited_from_customer data \<and> status data = ''FAILED'') \<and>
     js_le (amount data) (HIGH_VALUE_THRESHOLD RULES) \<and>
     js_ge (system_certainty_score data) (CERTAINTY_THRESHOLD RULES) \<and>
     status data = ''PENDING'' \<and>
     js_lt (time_elapsed_hours data) (AUTO_REVERSAL_WINDOW_HOURS RULES))"

text \<open>A pending case whose amount is not a number.\<close>

definition pending_nan_amount :: case_record where
  "pending_nan_amount =
    \<lparr>status = ''PENDING'', gateway_response = ''TIMEOUT'', amount = NaN,
     currency = None, debited_from_customer = False, time_elapsed_hours = Finite 2,
     system_certainty_score = Finite 1\<rparr>"

text \<open>A world whose heap holds the first scenario at every address.\<close>

definition world0 :: world where
  "world0 = \<lparr>heap = (\<lambda>_. scenario_standard_pending), console = []\<rparr>"


text \<open>Records at the thresholds, and records that no rule was written for.\<close>

definition pending_at_value_threshold :: case_record where
  "pending_at_value_threshold =
    \<lparr>status = ''PENDING'', gateway_response = ''TIMEOUT'', amount = Finite 5000,
     currency = Some ''INR'', debited_from_customer = True, time_elapsed_hours = Finite 2,
     system_certainty_score = Finite 1\<rparr>"

definition pending_above_value_threshold :: case_record where
  "pending_above_value_threshold =
    \<lparr>status = ''PENDING'', gateway_response = ''TIMEOUT'', amount = Finite 5000.01,
     currency = Some ''INR'', debited_from_customer = True, time_elapsed_hours = Finite 2,
     system_certainty_score = Finite 1\<rparr>"

definition pending_below_certainty :: case_record where
  "pending_below_certainty =
    \<lparr>status = ''PENDING'', gateway_response = ''TIMEOUT'', amount = Finite 150,
     currency = Some ''INR'', debited_from_customer = True, time_elapsed_hours = Finite 2,
     system_certainty_score = Finite 0.99\<rparr>"

definition pending_at_window :: case_record where
  "pending_at_window =
    \<lparr>status = ''PENDING'', gateway_response = ''TIMEOUT'', amount = Finite 150,
     currency = Some ''INR'', debited_from_customer = True, time_elapsed_hours = Finite 24,
     system_certainty_score = Finite 1\<rparr>"

definition success_case :: case_record where
  "success_case =
    \<lparr>status = ''SUCCESS'', gateway_response = ''SUCCESS'', amount = Finite 150,
     currency = Some ''INR'', debited_from_customer = False, time_elapsed_hours = Finite 2,
     system_certainty_score = Finite 1\<rparr>"

definition refunded_case :: case_record where
  "refunded_case =
    \<lparr>status = ''REFUNDED'', gateway_response = ''SUCCESS'', amount = Finite 150,
     currency = Some ''INR'', debited_from_customer = True, time_elapsed_hours = Finite 2,
     system_certainty_score = Finite 1\<rparr>"

definition pending_negative_amount :: case_record where
  "pending_negative_amount =
    \<lparr>status = ''PENDING'', gateway_response = ''TIMEOUT'', amount = Finite (- 150),
     currency = Some ''INR'', debited_from_customer = True, time_elapsed_hours = Finite 2,
     system_certainty_score = Finite 1\<rparr>"


section \<open>Properties\<close>

subsection \<open>Basic facts\<close>

lemma analyzeCase_chain:
  "analyzeCase d =
    (if debited_from_customer d \<and> status d = ''FAILED'' then escalate_limbo
     else if js_gt (amount d) (Finite 5000) then escalate_high_value (amount d)
     else if js_lt (system_certainty_score d) (Finite 1) then escalate_uncertain
     else if status d = ''PENDING'' then
       (if js_lt (time_elapsed_hours d) (Finite 24) then wait_pending else escalate_sla_breach)
     else escalate_default)"
  by (simp add: analyzeCase_def RULES_def escalate_limbo_def escalate_high_value_def
      escalate_uncertain_def wait_pending_def escalate_sla_breach_def escalate_default_def)

lemma scenario_standard_pending_result:
  "analyzeCase scenario_standard_pending = wait_pending"
  by (simp add: analyzeCase_chain scenario_standard_pending_def js_gt_def)

lemma scenario_money_limbo_result:
  "analyzeCase scenario_money_limbo = escalate_limbo"
  by (simp add: analyzeCase_chain scenario_money_limbo_def)

lemma scenario_high_value_result:
  "analyzeCase scenario_high_value = escalate_high_value (Finite 12000)"
  by (simp add: analyzeCase_chain scenario_high_value_def js_gt_def)

lemma results_distinct:
  "escalate_high_value a \<noteq> escalate_uncertain"
  "escalate_high_value a \<noteq> wait_pending"
  "escalate_high_value a \<noteq> escalate_sla_breach"
  "escalate_high_value a \<noteq> escalate_default"
  "escalate_uncertain \<noteq> wait_pending"
  "escalate_uncertain \<noteq> escalate_sla_breach"
  "escalate_uncertain \<noteq> escalate_default"
  by (simp_all add: escalate_high_value_def escalate_uncertain_def wait_pending_def
      escalate_sla_breach_def escalate_default_def)

lemma decision_of_results:
  "decision escalate_limbo = ''ESCALATE''"
  "decision (escalate_high_value a) = ''ESCALATE''"
  "decision escalate_uncertain = ''ESCALATE''"
  "decision wait_pending = ''WAIT''"
  "decision escalate_sla_breach = ''ESCALATE''"
  "decision escalate_default = ''ESCALATE''"
  by (simp_all add: escalate_limbo_def escalate_high_value_def escalate_uncertain_def
      wait_pending_def escalate_sla_breach_def escalate_default_def)

lemma rules_from_certainty_chain:
  "rules_from_certainty d =
    (if js_lt (system_certainty_score d) (Finite 1) then escalate_uncertain
     else if status d = ''PENDING'' then
       (if js_lt (time_elapsed_hours d) (Finite 24) then wait_pending else escalate_sla_breach)
     else escalate_default)"
  by (simp add: rules_from_certainty_def RULES_def escalate_uncertain_def wait_pending_def
      escalate_sla_breach_def escalate_default_def)

lemma rules_from_pending_chain:
  "rules_from_pending d =
    (if status d = ''PENDING'' then
       (if js_lt (time_elapsed_hours d) (Finite 24) then wait_pending else escalate_sla_breach)
     else escalate_default)"
  by (simp add: rules_from_pending_def RULES_def wait_pending_def
      escalate_sla_breach_def escalate_default_def)

lemma js_le_iff_not_gt: "a \<noteq> NaN \<Longrightarrow> b \<noteq> NaN \<Longrightarrow> js_le a b = (\<not> js_gt a b)"
  by (simp add: js_le_def js_gt_def)

lemma js_ge_iff_not_lt: "a \<noteq> NaN \<Longrightarrow> b \<noteq> NaN \<Longrightarrow> js_ge a b = (\<not> js_lt a b)"
  by (simp add: js_ge_def)

lemma analyzeCase_call_undefined: "fst (analyzeCase_call Undefined w) = Inl TypeError"
  by (simp add: analyzeCase_call_def)

lemma analyzeCase_call_null: "fst (analyzeCase_call Null w) = Inl TypeError"
  by (simp add: analyzeCase_call_def)

lemma analyzeCase_call_ref:
  "analyzeCase_call (Ref a) w =
    (Inr (analyzeCase (heap w a)),
     w\<lparr>console := console w @ [[Str ''Analyzing Case:'', JSON_object (heap w a)]]\<rparr>)"
  by (simp add: analyzeCase_call_def console_log_def JSON_stringify_def)

lemma analyzeCase_past_limbo:
  assumes "\<not> (debited_from_customer d \<and> status d = ''FAILED'')"
  shows "analyzeCase d =
    (if js_gt (amount d) (Finite 5000) then escalate_high_value (amount d)
     else rules_from_certainty d)"
proof -
  from assms have "(debited_from_customer d \<and> status d = ''FAILED'') = False" by blast
  then show ?thesis by (simp only: analyzeCase_chain rules_from_certainty_chain if_False)
qed

lemma rules_from_certainty_past:
  "rules_from_certainty d =
    (if js_lt (system_certainty_score d) (Finite 1) then escalate_uncertain
     else rules_from_pending d)"
  by (simp only: rules_from_certainty_chain rules_from_pending_chain)

lemma rules_from_certainty_not_high_value:
  "rules_from_certainty d \<noteq> escalate_high_value a"
  by (simp add: rules_from_certainty_chain results_distinct [symmetric])

lemma rules_from_pending_not_uncertain:
  "rules_from_pending d \<noteq> escalate_uncertain"
  by (simp add: rules_from_pending_chain results_distinct [symmetric])

subsection \<open>The single path to WAIT\<close>

text \<open>
  C1, as stated: the decision is WAIT if and only if the record is not in limbo, its
  amount is less than or equal to 5000, its score is greater than or equal to 1.0, its
  status is PENDING and fewer than 24 hours have elapsed. This fails for a pending record
  whose amount is \<open>NaN\<close>: the test \<open>amount > 5000\<close> is false, so the record goes on to
  WAIT, although its amount is not less than or equal to 5000.
\<close>

theorem analyzeCase_wait_as_stated_counterexample:
  "\<not> (decision (analyzeCase pending_nan_amount) = ''WAIT''
        \<longleftrightarrow> wait_path_as_stated pending_nan_amount)"
  by (simp add: analyzeCase_chain pending_nan_amount_def wait_path_as_stated_def
      js_gt_def js_le_def decision_of_results)

text \<open>
  C1, amended: the decision is WAIT if and only if the record is not in limbo, its amount
  is not greater than 5000, its score is not less than 1.0, its status is PENDING and
  fewer than 24 hours have elapsed; every other record yields ESCALATE. For a record
  whose amount and score are not \<open>NaN\<close> this is the condition as stated.
\<close>

theorem analyzeCase_wait_iff:
  "(decision (analyzeCase d) = ''WAIT'' \<longleftrightarrow> wait_path d) \<and>
   (decision (analyzeCase d) = ''ESCALATE'' \<longleftrightarrow> \<not> wait_path d) \<and>
   (amount d \<noteq> NaN \<and> system_certainty_score d \<noteq> NaN \<longrightarrow>
      (decision (analyzeCase d) = ''WAIT'' \<longleftrightarrow> wait_path_as_stated d) \<and>
      (decision (analyzeCase d) = ''ESCALATE'' \<longleftrightarrow> \<not> wait_path_as_stated d))"
proof -
  have path: "decision (analyzeCase d) = ''WAIT'' \<longleftrightarrow> wait_path d"
    by (simp add: analyzeCase_chain wait_path_def RULES_def decision_of_results)
  have esc: "decision (analyzeCase d) = ''ESCALATE'' \<longleftrightarrow> \<not> wait_path d"
    by (simp add: analyzeCase_chain wait_path_def RULES_def decision_of_results)
  have same: "wait_path_as_stated d = wait_path d"
    if "amount d \<noteq> NaN" "system_certainty_score d \<noteq> NaN"
    using that
    by (simp add: wait_path_as_stated_def wait_path_def RULES_def
        js_le_iff_not_gt js_ge_iff_not_lt)
  from path esc same show ?thesis by simp
qed

theorem analyzeCase_wait_iff_witness:
  "amount scenario_standard_pending \<noteq> NaN \<and>
   system_certainty_score scenario_standard_pending \<noteq> NaN \<and>
   wait_path_as_stated scenario_standard_pending \<and>
   decision (analyzeCase scenario_standard_pending) = ''WAIT'' \<and>
   amount scenario_high_value \<noteq> NaN \<and>
   system_certainty_score scenario_high_value \<noteq> NaN \<and>
   \<not> wait_path_as_stated scenario_high_value \<and>
   decision (analyzeCase scenario_high_value) = ''ESCALATE''"
  using analyzeCase_wait_iff [of scenario_standard_pending]
    analyzeCase_wait_iff [of scenario_high_value]
  by (simp add: scenario_standard_pending_def scenario_high_value_def
      wait_path_as_stated_def RULES_def js_le_def js_ge_def)

subsection \<open>Rule order\<close>

text \<open>
  C2: a record in the limbo state (debited from the customer and status FAILED) gets
  ESCALATE with the reconciliation reason and never WAIT, whatever its other fields are:
  the first rule is evaluated before all others. In particular this holds when fewer
  hours than the auto-reversal window have elapsed. (A status cannot be FAILED and
  PENDING at once, so the time is the only part of the pending-wait condition that a
  limbo record can meet.)
\<close>

theorem limbo_dominates:
  assumes "debited_from_customer d" and "status d = ''FAILED''"
  shows "analyzeCase d = escalate_limbo \<and> decision (analyzeCase d) = ''ESCALATE'' \<and>
         decision (analyzeCase d) \<noteq> ''WAIT''"
  using assms by (simp add: analyzeCase_chain decision_of_results)

theorem limbo_dominates_witness:
  "debited_from_customer scenario_money_limbo \<and>
   status scenario_money_limbo = ''FAILED'' \<and>
   js_lt (time_elapsed_hours scenario_money_limbo) (AUTO_REVERSAL_WINDOW_HOURS RULES) \<and>
   analyzeCase scenario_money_limbo = escalate_limbo \<and>
   decision (analyzeCase scenario_money_limbo) \<noteq> ''WAIT''"
proof -
  have d: "debited_from_customer scenario_money_limbo"
    by (simp add: scenario_money_limbo_def)
  have s: "status scenario_money_limbo = ''FAILED''"
    by (simp add: scenario_money_limbo_def)
  have t: "js_lt (time_elapsed_hours scenario_money_limbo) (AUTO_REVERSAL_WINDOW_HOURS RULES)"
    by (simp add: scenario_money_limbo_def RULES_def)
  from limbo_dominates [OF d s] have "analyzeCase scenario_money_limbo = escalate_limbo"
    and "decision (analyzeCase scenario_money_limbo) \<noteq> ''WAIT''" by blast+
  with d s t show ?thesis by blast
qed

subsection \<open>Threshold boundaries\<close>

text \<open>
  C3: for a record that the limbo rule does not match, an amount exactly equal to the
  high-value threshold does not trigger the high-value rule (the result is that of the
  rules from the certainty check on, and is not the high-value escalation), and an
  amount strictly greater than the threshold gives ESCALATE with the high-value reason.
\<close>

theorem high_value_boundary:
  assumes "\<not> (debited_from_customer d \<and> status d = ''FAILED'')"
  shows "(amount d = HIGH_VALUE_THRESHOLD RULES \<longrightarrow>
            analyzeCase d = rules_from_certainty d \<and>
            analyzeCase d \<noteq> escalate_high_value (amount d)) \<and>
         (js_gt (amount d) (HIGH_VALUE_THRESHOLD RULES) \<longrightarrow>
            analyzeCase d = escalate_high_value (amount d) \<and>
            decision (analyzeCase d) = ''ESCALATE'')"
proof -
  have eq: "analyzeCase d = rules_from_certainty d \<and>
            analyzeCase d \<noteq> escalate_high_value (amount d)"
    if "amount d = HIGH_VALUE_THRESHOLD RULES"
    using that
    by (simp add: analyzeCase_past_limbo [OF assms] RULES_def js_gt_def
        rules_from_certainty_not_high_value)
  have gt: "analyzeCase d = escalate_high_value (amount d) \<and>
            decision (analyzeCase d) = ''ESCALATE''"
    if "js_gt (amount d) (HIGH_VALUE_THRESHOLD RULES)"
    using that by (simp add: analyzeCase_past_limbo [OF assms] RULES_def decision_of_results)
  from eq gt show ?thesis by blast
qed

theorem high_value_boundary_witness:
  "\<not> (debited_from_customer pending_at_value_threshold \<and>
       status pending_at_value_threshold = ''FAILED'') \<and>
   amount pending_at_value_threshold = HIGH_VALUE_THRESHOLD RULES \<and>
   analyzeCase pending_at_value_threshold = wait_pending \<and>
   \<not> (debited_from_customer pending_above_value_threshold \<and>
       status pending_above_value_threshold = ''FAILED'') \<and>
   js_gt (amount pending_above_value_threshold) (HIGH_VALUE_THRESHOLD RULES) \<and>
   analyzeCase pending_above_value_threshold = escalate_high_value (Finite 5000.01)"
  using high_value_boundary [of pending_at_value_threshold]
    high_value_boundary [of pending_above_value_threshold]
  by (simp add: pending_at_value_threshold_def pending_above_value_threshold_def
      rules_from_certainty_chain RULES_def js_gt_def)

text \<open>
  C4: for a record that neither the limbo rule nor the high-value rule matches, a score
  exactly equal to the certainty threshold does not trigger the low-certainty rule (the
  result is that of the rules from the pending check on, and is not the low-certainty
  escalation), and a score strictly below the threshold gives ESCALATE with the
  insufficient-certainty reason.
\<close>

theorem certainty_boundary:
  assumes "\<not> (debited_from_customer d \<and> status d = ''FAILED'')"
    and "\<not> js_gt (amount d) (HIGH_VALUE_THRESHOLD RULES)"
  shows "(system_certainty_score d = CERTAINTY_THRESHOLD RULES \<longrightarrow>
            analyzeCase d = rules_from_pending d \<and>
            analyzeCase d \<noteq> escalate_uncertain) \<and>
         (js_lt (system_certainty_score d) (CERTAINTY_THRESHOLD RULES) \<longrightarrow>
            analyzeCase d = escalate_uncertain \<and>
            decision (analyzeCase d) = ''ESCALATE'')"
proof -
  have eq: "analyzeCase d = rules_from_pending d \<and> analyzeCase d \<noteq> escalate_uncertain"
    if "system_certainty_score d = CERTAINTY_THRESHOLD RULES"
    using assms(2) that
    by (simp add: analyzeCase_past_limbo [OF assms(1)] rules_from_certainty_past RULES_def
        rules_from_pending_not_uncertain)
  have lt: "analyzeCase d = escalate_uncertain \<and> decision (analyzeCase d) = ''ESCALATE''"
    if "js_lt (system_certainty_score d) (CERTAINTY_THRESHOLD RULES)"
    using assms(2) that
    by (simp add: analyzeCase_past_limbo [OF assms(1)] rules_from_certainty_past RULES_def
        decision_of_results)
  from eq lt show ?thesis by blast
qed

theorem certainty_boundary_witness:
  "\<not> (debited_from_customer scenario_standard_pending \<and>
       status scenario_standard_pending = ''FAILED'') \<and>
   \<not> js_gt (amount scenario_standard_pending) (HIGH_VALUE_THRESHOLD RULES) \<and>
   system_certainty_score scenario_standard_pending = CERTAINTY_THRESHOLD RULES \<and>
   analyzeCase scenario_standard_pending = wait_pending \<and>
   \<not> (debited_from_customer pending_below_certainty \<and>
       status pending_below_certainty = ''FAILED'') \<and>
   \<not> js_gt (amount pending_below_certainty) (HIGH_VALUE_THRESHOLD RULES) \<and>
   js_lt (system_certainty_score pending_below_certainty) (CERTAINTY_THRESHOLD RULES) \<and>
   analyzeCase pending_below_certainty = escalate_uncertain"
  using certainty_boundary [of scenario_standard_pending]
    certainty_boundary [of pending_below_certainty]
  by (simp add: scenario_standard_pending_def pending_below_certainty_def
      rules_from_pending_chain RULES_def js_gt_def)

text \<open>
  C5: for a PENDING record that passes the limbo, high-value and certainty rules, a time
  exactly equal to the auto-reversal window gives ESCALATE with the SLA-breach reason,
  and a time strictly below the window gives WAIT.
\<close>

theorem window_boundary:
  assumes "status d = ''PENDING''"
    and "\<not> (debited_from_customer d \<and> status d = ''FAILED'')"
    and "\<not> js_gt (amount d) (HIGH_VALUE_THRESHOLD RULES)"
    and "\<not> js_lt (system_certainty_score d) (CERTAINTY_THRESHOLD RULES)"
  shows "(time_elapsed_hours d = AUTO_REVERSAL_WINDOW_HOURS RULES \<longrightarrow>
            analyzeCase d = escalate_sla_breach \<and>
            decision (analyzeCase d) = ''ESCALATE'') \<and>
         (js_lt (time_elapsed_hours d) (AUTO_REVERSAL_WINDOW_HOURS RULES) \<longrightarrow>
            analyzeCase d = wait_pending \<and>
            decision (analyzeCase d) = ''WAIT'')"
proof -
  have eq: "analyzeCase d = escalate_sla_breach \<and> decision (analyzeCase d) = ''ESCALATE''"
    if "time_elapsed_hours d = AUTO_REVERSAL_WINDOW_HOURS RULES"
    using assms that by (simp add: analyzeCase_chain RULES_def decision_of_results)
  have lt: "analyzeCase d = wait_pending \<and> decision (analyzeCase d) = ''WAIT''"
    if "js_lt (time_elapsed_hours d) (AUTO_REVERSAL_WINDOW_HOURS RULES)"
    using assms that by (simp add: analyzeCase_chain RULES_def decision_of_results)
  from eq lt show ?thesis by blast
qed

theorem window_boundary_witness:
  "status pending_at_window = ''PENDING'' \<and>
   \<not> js_gt (amount pending_at_window) (HIGH_VALUE_THRESHOLD RULES) \<and>
   \<not> js_lt (system_certainty_score pending_at_window) (CERTAINTY_THRESHOLD RULES) \<and>
   time_elapsed_hours pending_at_window = AUTO_REVERSAL_WINDOW_HOURS RULES \<and>
   analyzeCase pending_at_window = escalate_sla_breach \<and>
   status scenario_standard_pending = ''PENDING'' \<and>
   \<not> js_gt (amount scenario_standard_pending) (HIGH_VALUE_THRESHOLD RULES) \<and>
   \<not> js_lt (system_certainty_score scenario_standard_pending) (CERTAINTY_THRESHOLD RULES) \<and>
   js_lt (time_elapsed_hours scenario_standard_pending) (AUTO_REVERSAL_WINDOW_HOURS RULES) \<and>
   analyzeCase scenario_standard_pending = wait_pending"
  using window_boundary [of pending_at_window]
    window_boundary [of scenario_standard_pending]
  by (simp add: pending_at_window_def scenario_standard_pending_def RULES_def js_gt_def)

subsection \<open>The default\<close>

text \<open>
  C6: a record with status SUCCESS that triggers no fail-safe (not debited and FAILED,
  amount not above the threshold, score not below the threshold) gets ESCALATE with the
  default reason, and so does, under the same conditions, a record whose status is none
  of FAILED, PENDING and SUCCESS.
\<close>

theorem default_escalates:
  assumes "\<not> (debited_from_customer d \<and> status d = ''FAILED'')"
    and "\<not> js_gt (amount d) (HIGH_VALUE_THRESHOLD RULES)"
    and "\<not> js_lt (system_certainty_score d) (CERTAINTY_THRESHOLD RULES)"
  shows "(status d = ''SUCCESS'' \<longrightarrow>
            analyzeCase d = escalate_default \<and> decision (analyzeCase d) = ''ESCALATE'') \<and>
         (status d \<notin> {''FAILED'', ''PENDING'', ''SUCCESS''} \<longrightarrow>
            analyzeCase d = escalate_default \<and> decision (analyzeCase d) = ''ESCALATE'')"
proof -
  have other: "analyzeCase d = escalate_default \<and> decision (analyzeCase d) = ''ESCALATE''"
    if "status d \<noteq> ''PENDING''"
    using assms(2,3) that
    by (simp add: analyzeCase_past_limbo [OF assms(1)] rules_from_certainty_past
        rules_from_pending_chain RULES_def decision_of_results)
  have "status d \<noteq> ''PENDING''" if "status d = ''SUCCESS''"
    using that by simp
  moreover have "status d \<noteq> ''PENDING''"
    if "status d \<notin> {''FAILED'', ''PENDING'', ''SUCCESS''}"
    using that by simp
  ultimately show ?thesis using other by blast
qed

theorem default_escalates_witness:
  "\<not> (debited_from_customer success_case \<and> status success_case = ''FAILED'') \<and>
   \<not> js_gt (amount success_case) (HIGH_VALUE_THRESHOLD RULES) \<and>
   \<not> js_lt (system_certainty_score success_case) (CERTAINTY_THRESHOLD RULES) \<and>
   status success_case = ''SUCCESS'' \<and>
   analyzeCase success_case = escalate_default \<and>
   \<not> (debited_from_customer refunded_case \<and> status refunded_case = ''FAILED'') \<and>
   \<not> js_gt (amount refunded_case) (HIGH_VALUE_THRESHOLD RULES) \<and>
   \<not> js_lt (system_certainty_score refunded_case) (CERTAINTY_THRESHOLD RULES) \<and>
   status refunded_case \<notin> {''FAILED'', ''PENDING'', ''SUCCESS''} \<and>
   analyzeCase refunded_case = escalate_default"
  using default_escalates [of success_case] default_escalates [of refunded_case]
  by (simp add: success_case_def refunded_case_def RULES_def js_gt_def)

subsection \<open>Totality, purity, irrelevant fields\<close>

text \<open>
  C7: called on a case record, the function returns a Decision (it does not throw), and
  the decision field of that Decision is WAIT or ESCALATE. This holds for every record
  of the heap, well-formed or not.
\<close>

theorem analyzeCase_total:
  "fst (analyzeCase_call (Ref a) w) = Inr (analyzeCase (heap w a)) \<and>
   (decision (analyzeCase (heap w a)) = ''WAIT'' \<or>
    decision (analyzeCase (heap w a)) = ''ESCALATE'')"
  by (simp add: analyzeCase_call_ref analyzeCase_chain decision_of_results)

text \<open>
  C8: a call leaves every record of the heap as it was (it only adds a line to the
  console), and it is deterministic: a second call on the same argument returns what the
  first returned, and so do calls in any two worlds that hold the same record at the
  address.
\<close>

theorem analyzeCase_pure:
  "heap (snd (analyzeCase_call v w)) = heap w \<and>
   fst (analyzeCase_call v (snd (analyzeCase_call v w))) = fst (analyzeCase_call v w) \<and>
   (heap w1 a = heap w2 a \<longrightarrow>
      fst (analyzeCase_call (Ref a) w1) = fst (analyzeCase_call (Ref a) w2))"
proof -
  have frame: "heap (snd (analyzeCase_call v w)) = heap w"
    by (cases v) (simp_all add: analyzeCase_call_def console_log_def)
  have res: "fst (analyzeCase_call v w') = fst (analyzeCase_call v w)"
    if "heap w' = heap w" for w'
    using that by (cases v) (simp_all add: analyzeCase_call_def console_log_def)
  have two: "fst (analyzeCase_call (Ref a) w1) = fst (analyzeCase_call (Ref a) w2)"
    if "heap w1 a = heap w2 a"
    using that by (simp add: analyzeCase_call_ref)
  from frame res [OF frame] two show ?thesis by blast
qed

theorem analyzeCase_pure_witness:
  "heap world0 0 = heap (snd (analyzeCase_call (Ref 0) world0)) 0 \<and>
   fst (analyzeCase_call (Ref 0) world0) = Inr wait_pending \<and>
   fst (analyzeCase_call (Ref 0) (snd (analyzeCase_call (Ref 0) world0))) = Inr wait_pending \<and>
   console (snd (analyzeCase_call (Ref 0) world0)) \<noteq> console world0"
  using analyzeCase_pure [of "Ref 0" world0 world0 0 "snd (analyzeCase_call (Ref 0) world0)"]
  by (simp add: analyzeCase_call_ref world0_def scenario_standard_pending_result)

text \<open>
  C9: the fields \<open>gateway_response\<close> and \<open>currency\<close> never influence the result: two
  records that differ only in them get the same decision and the same reason.
\<close>

theorem gateway_currency_irrelevant:
  "analyzeCase (d\<lparr>gateway_response := g, currency := c\<rparr>) = analyzeCase d \<and>
   decision (analyzeCase (d\<lparr>gateway_response := g, currency := c\<rparr>)) = decision (analyzeCase d) \<and>
   reason (analyzeCase (d\<lparr>gateway_response := g, currency := c\<rparr>)) = reason (analyzeCase d)"
  by (simp add: analyzeCase_def)

subsection \<open>No validation\<close>

text \<open>
  C10: the function validates nothing and has no error result for a record. A record
  with a negative amount, status PENDING, a score of at least 1.0 and fewer than 24
  hours elapsed gets WAIT: the negative amount passes the high-value test, and the call
  returns that Decision, not an error.
\<close>

theorem negative_amount_waits:
  assumes "js_lt (amount d) (Finite 0)"
    and "status d = ''PENDING''"
    and "js_ge (system_certainty_score d) (Finite 1)"
    and "js_lt (time_elapsed_hours d) (Finite 24)"
  shows "analyzeCase d = wait_pending \<and> decision (analyzeCase d) = ''WAIT'' \<and>
         fst (analyzeCase_call (Ref a) (w\<lparr>heap := (heap w)(a := d)\<rparr>)) = Inr wait_pending"
proof -
  have "\<not> js_gt (amount d) (Finite 5000)"
    using assms(1) by (cases "amount d") (simp_all add: js_gt_def)
  moreover have "\<not> js_lt (system_certainty_score d) (Finite 1)"
    using assms(3) by (simp add: js_ge_def)
  ultimately have "analyzeCase d = wait_pending"
    using assms(2,4) by (simp add: analyzeCase_chain)
  then show ?thesis by (simp add: analyzeCase_call_ref decision_of_results)
qed

theorem negative_amount_waits_witness:
  "js_lt (amount pending_negative_amount) (Finite 0) \<and>
   status pending_negative_amount = ''PENDING'' \<and>
   js_ge (system_certainty_score pending_negative_amount) (Finite 1) \<and>
   js_lt (time_elapsed_hours pending_negative_amount) (Finite 24) \<and>
   analyzeCase pending_negative_amount = wait_pending \<and>
   fst (analyzeCase_call (Ref 0) (world0\<lparr>heap := (heap world0)(0 := pending_negative_amount)\<rparr>))
     = Inr wait_pending"
  using negative_amount_waits [of pending_negative_amount 0 world0]
  by (simp add: pending_negative_amount_def js_ge_def)

end
